theory Spec2Isabelle
  imports Main
begin

section \<open>Python values the locator engine relies on\<close>

text \<open>
  The exceptions that the modelled code can raise.  \<open>ReError\<close> is \<open>re.error\<close> of
  \<open>re.compile\<close>; \<open>IndexError\<close>, \<open>ValueError\<close> and \<open>TypeError\<close> are the built-in
  exceptions of list indexing, tuple unpacking and calling a non-callable; \<open>External\<close>
  stands for whatever an external collaborator (registry, backend, filter compiler)
  raises.
\<close>

datatype error = ReError | IndexError | ValueError | TypeError | External string

text \<open>\<open>xs[i]\<close> for a non-negative index: out of range raises \<open>IndexError\<close>.\<close>

definition py_index :: "'a list \<Rightarrow> nat \<Rightarrow> error + 'a" where
  "py_index xs i = (if i < length xs then Inr (xs ! i) else Inl IndexError)"

text \<open>
  \<open>if context:\<close> is false for \<open>None\<close> and for the empty list.
\<close>

definition truthy :: "'a list option \<Rightarrow> bool" where
  "truthy context = (case context of None \<Rightarrow> False | Some xs \<Rightarrow> xs \<noteq> [])"

subsection \<open>\<open>str.split\<close> and \<open>str.join\<close> with a one-character separator\<close>

text \<open>\<open>break_at sep s\<close> cuts \<open>s\<close> at the first \<open>sep\<close>, if there is one.\<close>

fun break_at :: "char \<Rightarrow> string \<Rightarrow> (string \<times> string) option" where
  "break_at sep [] = None"
| "break_at sep (c # cs) =
     (if c = sep then Some ([], cs)
      else (case break_at sep cs of
              None \<Rightarrow> None
            | Some (a, b) \<Rightarrow> Some (c # a, b)))"

text \<open>\<open>s.split(sep, n)\<close>: at most \<open>n\<close> cuts, hence at most \<open>n + 1\<close> pieces.\<close>

fun py_split :: "char \<Rightarrow> nat \<Rightarrow> string \<Rightarrow> string list" where
  "py_split sep 0 s = [s]"
| "py_split sep (Suc n) s =
     (case break_at sep s of
        None \<Rightarrow> [s]
      | Some (a, b) \<Rightarrow> a # py_split sep n b)"

text \<open>\<open>s.split(sep)\<close> without a limit: a string has no more separators than characters.\<close>

definition py_split_all :: "char \<Rightarrow> string \<Rightarrow> string list" where
  "py_split_all sep s = py_split sep (length s) s"

fun py_join :: "char \<Rightarrow> string list \<Rightarrow> string" where
  "py_join sep [] = []"
| "py_join sep [x] = x"
| "py_join sep (x # y # ys) = x @ sep # py_join sep (y # ys)"

subsection \<open>A fragment of Python's \<open>re\<close>\<close>

text \<open>
  The engine reaches \<open>re\<close> through \<open>re.compile(regex)\<close> and the truth value of
  \<open>regex.search(choice)\<close>.  A compiled pattern is represented by its search predicate,
  and the library by a function from pattern strings to compiled patterns, \<open>None\<close> when
  \<open>re.compile\<close> raises.  The general theorems hold for any such library.

  \<open>re_fragment\<close> is the library on the patterns built from ordinary characters, the
  dot and the postfix star: a dot matches any character but a newline, a star repeats
  the single character or dot before it, a star with nothing to repeat (at the start of
  the pattern or after another star) is rejected by \<open>re.compile\<close>, and \<open>search\<close> looks
  for a match starting anywhere in the candidate.  It is used for the concrete runs
  only, all of them on patterns of this fragment; patterns with other metacharacters
  are outside what it describes.
\<close>

type_synonym regex_object = "string \<Rightarrow> bool"
type_synonym re_library = "string \<Rightarrow> regex_object option"

datatype atom = Lit char | Dot

fun atom_ok :: "atom \<Rightarrow> char \<Rightarrow> bool" where
  "atom_ok (Lit a) c = (a = c)"
| "atom_ok Dot c = (c \<noteq> CHR 0x0A)"

text \<open>An item is an atom and whether a star follows it.\<close>

fun parse_items :: "string \<Rightarrow> (atom \<times> bool) list option" where
  "parse_items [] = Some []"
| "parse_items [c] =
     (if c = CHR ''*'' then None
      else Some [(if c = CHR ''.'' then Dot else Lit c, False)])"
| "parse_items (c # d # cs) =
     (if c = CHR ''*'' then None
      else if d = CHR ''*''
      then map_option (Cons (if c = CHR ''.'' then Dot else Lit c, True)) (parse_items cs)
      else map_option (Cons (if c = CHR ''.'' then Dot else Lit c, False))
             (parse_items (d # cs)))"

text \<open>\<open>match_here items s\<close>: some prefix of \<open>s\<close> matches the items.\<close>

fun match_here :: "(atom \<times> bool) list \<Rightarrow> string \<Rightarrow> bool" where
  "match_here [] s = True"
| "match_here ((a, False) # items) [] = False"
| "match_here ((a, False) # items) (c # cs) = (atom_ok a c \<and> match_here items cs)"
| "match_here ((a, True) # items) [] = match_here items []"
| "match_here ((a, True) # items) (c # cs) =
     (match_here items (c # cs) \<or> (atom_ok a c \<and> match_here ((a, True) # items) cs))"

fun search_items :: "(atom \<times> bool) list \<Rightarrow> string \<Rightarrow> bool" where
  "search_items items [] = match_here items []"
| "search_items items (c # cs) = (match_here items (c # cs) \<or> search_items items cs)"

definition re_fragment :: re_library where
  "re_fragment regex = map_option search_items (parse_items regex)"

section \<open>External collaborators\<close>

text \<open>
  The locator: the six components in order, each a component class and its pattern, the
  compiled filter expression and the credentials handle.
\<close>

datatype component_class = Scheme | Provider | Service | Region | Account | Resource

type_synonym component = "component_class \<times> string"

record ('c, 'q) ARN =
  components :: "component list"
  query :: "'q option"
  aws_creds :: "'c option"

text \<open>
  What the module imports and does not define: \<open>re\<close>, the registry
  \<open>skew.resources\<close> (\<open>all_services\<close>, \<open>all_types\<close>, \<open>find_resource_class\<close>), the
  accounts of \<open>get_config()\<close> and \<open>jmespath.compile\<close>.  They are parameters of the
  model.  A resource class is represented by its \<open>enumerate\<close> class method, called with
  the locator, the region, the account, the resource id and the credentials.
\<close>

type_synonym ('r, 'c, 'q) resource_class =
  "('c, 'q) ARN \<Rightarrow> string \<Rightarrow> string \<Rightarrow> string option \<Rightarrow> 'c option \<Rightarrow> error + 'r list"

record ('r, 'c, 'q) env =
  re_compile :: re_library
  all_services :: "string \<Rightarrow> string list"
  all_types :: "string \<Rightarrow> string \<Rightarrow> string list"
  find_resource_class :: "string \<Rightarrow> error + ('r, 'c, 'q) resource_class"
  accounts :: "string list"
  jmespath_compile :: "string \<Rightarrow> error + 'q"

section \<open>Components\<close>

text \<open>The properties \<open>scheme\<close> ... \<open>resource\<close> of the locator index its components.\<close>

definition scheme :: "('c, 'q) ARN \<Rightarrow> component" where
  "scheme arn = components arn ! 0"

definition provider :: "('c, 'q) ARN \<Rightarrow> component" where
  "provider arn = components arn ! 1"

definition service :: "('c, 'q) ARN \<Rightarrow> component" where
  "service arn = components arn ! 2"

definition region :: "('c, 'q) ARN \<Rightarrow> component" where
  "region arn = components arn ! 3"

definition account :: "('c, 'q) ARN \<Rightarrow> component" where
  "account arn = components arn ! 4"

definition resource :: "('c, 'q) ARN \<Rightarrow> component" where
  "resource arn = components arn ! 5"

definition pattern :: "component \<Rightarrow> string" where
  "pattern c = snd c"

subsection \<open>\<open>ARNComponent.match\<close>\<close>

text \<open>The loop of \<open>match\<close>: candidates that the regex finds are appended in turn.\<close>

fun match_loop :: "regex_object \<Rightarrow> string list \<Rightarrow> string list \<Rightarrow> string list" where
  "match_loop rx [] matches = matches"
| "match_loop rx (choice # rest) matches =
     match_loop rx rest (if rx choice then matches @ [choice] else matches)"

text \<open>
  \<open>chs\<close> is the outcome of \<open>self.choices(context)\<close>, which the class of the component
  decides; the pattern is compiled before the choices are asked for.
\<close>

definition ARNComponent_match ::
  "('r, 'c, 'q) env \<Rightarrow> error + string list \<Rightarrow> string \<Rightarrow> error + string list" where
  "ARNComponent_match env chs pat =
     (let regex = (if pat = ''*'' then ''.*'' else pat) in
      case re_compile env regex of
        None \<Rightarrow> Inl ReError
      | Some rx \<Rightarrow>
          (case chs of
             Inl e \<Rightarrow> Inl e
           | Inr cs \<Rightarrow> Inr (match_loop rx cs [])))"

subsection \<open>Candidate sets of the six classes\<close>

definition Scheme_choices :: "string list option \<Rightarrow> error + string list" where
  "Scheme_choices context = Inr [''arn'']"

definition Provider_choices :: "string list option \<Rightarrow> error + string list" where
  "Provider_choices context = Inr [''aws'']"

definition Service_choices ::
  "('r, 'c, 'q) env \<Rightarrow> ('c, 'q) ARN \<Rightarrow> string list option \<Rightarrow> error + string list" where
  "Service_choices env arn context =
     (case (if truthy context then py_index (the context) 1
            else Inr (pattern (provider arn))) of
        Inl e \<Rightarrow> Inl e
      | Inr prov \<Rightarrow> Inr (all_services env prov))"

definition all_region_names :: "string list" where
  "all_region_names =
     [''us-east-1'', ''us-west-1'', ''us-west-2'', ''eu-west-1'', ''eu-central-1'',
      ''ap-southeast-1'', ''ap-southeast-2'', ''ap-northeast-1'', ''sa-east-1'']"

definition region_names_limited :: "string list" where
  "region_names_limited =
     [''us-east-1'', ''us-west-2'', ''eu-west-1'',
      ''ap-southeast-1'', ''ap-southeast-2'', ''ap-northeast-1'']"

definition no_region_required :: "string list" where
  "no_region_required = ['''']"

definition service_region_map :: "(string \<times> string list) list" where
  "service_region_map =
     [(''redshift'', region_names_limited),
      (''glacier'', region_names_limited),
      (''kinesis'', region_names_limited),
      (''iam'', no_region_required),
      (''route53'', no_region_required),
      (''lambda'', [''us-east-1'', ''us-west-2'', ''eu-west-1'', ''ap-northeast-1''])]"

text \<open>
  The key handed to \<open>_service_region_map.get\<close> is a string when it is read from the
  context and the service component object when there is no context.  The keys of the
  table are strings, and \<open>ARNComponent\<close> defines neither \<open>__eq__\<close> nor \<open>__hash__\<close>, so a
  component object is equal to none of them.
\<close>

datatype dict_key = StrKey string | ObjKey component

fun dict_get :: "(string \<times> 'v) list \<Rightarrow> dict_key \<Rightarrow> 'v \<Rightarrow> 'v" where
  "dict_get table (StrKey k) dflt =
     (case map_of table k of None \<Rightarrow> dflt | Some v \<Rightarrow> v)"
| "dict_get table (ObjKey obj) dflt = dflt"

definition Region_choices ::
  "('c, 'q) ARN \<Rightarrow> string list option \<Rightarrow> error + string list" where
  "Region_choices arn context =
     (case (if truthy context then map_sum id StrKey (py_index (the context) 2)
            else Inr (ObjKey (service arn))) of
        Inl e \<Rightarrow> Inl e
      | Inr key \<Rightarrow> Inr (dict_get service_region_map key all_region_names))"

definition Account_choices ::
  "('r, 'c, 'q) env \<Rightarrow> string list option \<Rightarrow> error + string list" where
  "Account_choices env context = Inr (accounts env)"

definition Resource_choices ::
  "('r, 'c, 'q) env \<Rightarrow> ('c, 'q) ARN \<Rightarrow> string list option \<Rightarrow> error + string list" where
  "Resource_choices env arn context =
     (case (if truthy context then py_index (the context) 2
            else Inr (pattern (service arn))) of
        Inl e \<Rightarrow> Inl e
      | Inr svc \<Rightarrow>
          (let all_resources = all_types env (pattern (provider arn)) svc in
           Inr (if all_resources = [] then [''*''] else all_resources)))"

fun choices ::
  "('r, 'c, 'q) env \<Rightarrow> ('c, 'q) ARN \<Rightarrow> component_class \<Rightarrow> string list option
     \<Rightarrow> error + string list" where
  "choices env arn Scheme context = Scheme_choices context"
| "choices env arn Provider context = Provider_choices context"
| "choices env arn Service context = Service_choices env arn context"
| "choices env arn Region context = Region_choices arn context"
| "choices env arn Account context = Account_choices env context"
| "choices env arn Resource context = Resource_choices env arn context"

subsection \<open>The resource level\<close>

definition split_resource :: "string \<Rightarrow> string \<times> string option" where
  "split_resource resource_pat =
     (if CHR ''/'' \<in> set resource_pat
      then (case py_split (CHR ''/'') 1 resource_pat of
              [resource_type, resource_id] \<Rightarrow> (resource_type, Some resource_id)
            | _ \<Rightarrow> (resource_pat, None))
      else if CHR '':'' \<in> set resource_pat
      then (case py_split (CHR '':'') 1 resource_pat of
              [resource_type, resource_id] \<Rightarrow> (resource_type, Some resource_id)
            | _ \<Rightarrow> (resource_pat, None))
      else (resource_pat, None))"

definition Resource_match ::
  "('r, 'c, 'q) env \<Rightarrow> ('c, 'q) ARN \<Rightarrow> string \<Rightarrow> string list option
     \<Rightarrow> error + string list" where
  "Resource_match env arn pat context =
     ARNComponent_match env (Resource_choices env arn context) (fst (split_resource pat))"

text \<open>\<open>self.match\<close> and \<open>self.matches\<close>, dispatched on the class of the component.\<close>

definition match ::
  "('r, 'c, 'q) env \<Rightarrow> ('c, 'q) ARN \<Rightarrow> component_class \<Rightarrow> string \<Rightarrow> string list option
     \<Rightarrow> error + string list" where
  "match env arn cls pat context =
     (if cls = Resource then Resource_match env arn pat context
      else ARNComponent_match env (choices env arn cls context) pat)"

definition matches ::
  "('r, 'c, 'q) env \<Rightarrow> ('c, 'q) ARN \<Rightarrow> component \<Rightarrow> string list option
     \<Rightarrow> error + string list" where
  "matches env arn self context = match env arn (fst self) (pattern self) context"

subsection \<open>\<open>Resource.enumerate\<close>\<close>

text \<open>
  The loop over the matched resource types: the class is looked up under the path
  \<open>provider.service.resource_type\<close> and its records extend the list.  Nothing is
  caught, so the first lookup or backend call that raises ends the call.
\<close>

fun Resource_loop ::
  "('r, 'c, 'q) env \<Rightarrow> ('c, 'q) ARN \<Rightarrow> string \<Rightarrow> string \<Rightarrow> string \<Rightarrow> string
     \<Rightarrow> string option \<Rightarrow> 'c option \<Rightarrow> string list \<Rightarrow> 'r list \<Rightarrow> error + 'r list" where
  "Resource_loop env arn prov service_name reg acct resource_id creds [] resources =
     Inr resources"
| "Resource_loop env arn prov service_name reg acct resource_id creds
     (resource_type # rest) resources =
     (let resource_path = py_join (CHR ''.'') [prov, service_name, resource_type] in
      case find_resource_class env resource_path of
        Inl e \<Rightarrow> Inl e
      | Inr resource_cls \<Rightarrow>
          (case resource_cls arn reg acct resource_id creds of
             Inl e \<Rightarrow> Inl e
           | Inr found \<Rightarrow>
               Resource_loop env arn prov service_name reg acct resource_id creds
                 rest (resources @ found)))"

definition Resource_enumerate ::
  "('r, 'c, 'q) env \<Rightarrow> ('c, 'q) ARN \<Rightarrow> string list \<Rightarrow> 'c option \<Rightarrow> error + 'r list" where
  "Resource_enumerate env arn context creds =
     (case context of
        [_, prov, service_name, reg, acct] \<Rightarrow>
          (let resource_id = snd (split_resource (pattern (resource arn))) in
           case matches env arn (resource arn) (Some context) of
             Inl e \<Rightarrow> Inl e
           | Inr types \<Rightarrow>
               Resource_loop env arn prov service_name reg acct resource_id creds types [])
      | _ \<Rightarrow> Inl ValueError)"

subsection \<open>The generator levels\<close>

text \<open>
  A run of a generator that shares the mutable \<open>context\<close> list with its caller: the
  records it yields, each with the context as it stands while the generator is
  suspended at that \<open>yield\<close>; the exception that ended the run, if one did; and the
  context when the run has ended.
\<close>

record 'r run =
  yielded :: "('r \<times> string list) list"
  ending :: "error option"
  context_after :: "string list"

definition records :: "'r run \<Rightarrow> 'r list" where
  "records t = map fst (yielded t)"

text \<open>
  The body shared by \<open>Account.enumerate\<close>, \<open>Region.enumerate\<close>, \<open>Service.enumerate\<close>,
  \<open>Provider.enumerate\<close> and \<open>Scheme.enumerate\<close>, which differ in the level they descend
  into: for each match, append it, pass on what the next level yields, pop.  There is
  no \<open>try\<close> around the inner loop: an exception from the next level leaves the
  generator before the pop.  \<open>context.pop()\<close> on an empty list raises \<open>IndexError\<close>.
\<close>

fun level_loop ::
  "(string list \<Rightarrow> 'r run) \<Rightarrow> string list \<Rightarrow> string list \<Rightarrow> 'r run" where
  "level_loop next_level [] context =
     \<lparr>yielded = [], ending = None, context_after = context\<rparr>"
| "level_loop next_level (m # ms) context =
     (let sub = next_level (context @ [m]) in
      case ending sub of
        Some e \<Rightarrow> sub
      | None \<Rightarrow>
          (if context_after sub = [] then sub\<lparr>ending := Some IndexError\<rparr>
           else (let rest = level_loop next_level ms (butlast (context_after sub)) in
                 rest\<lparr>yielded := yielded sub @ yielded rest\<rparr>)))"

definition level_enumerate ::
  "('r, 'c, 'q) env \<Rightarrow> ('c, 'q) ARN \<Rightarrow> component \<Rightarrow> (string list \<Rightarrow> 'r run)
     \<Rightarrow> string list \<Rightarrow> 'r run" where
  "level_enumerate env arn self next_level context =
     (case matches env arn self (Some context) of
        Inl e \<Rightarrow> \<lparr>yielded = [], ending = Some e, context_after = context\<rparr>
      | Inr ms \<Rightarrow> level_loop next_level ms context)"

text \<open>
  \<open>Resource.enumerate\<close> returns a list; \<open>Account.enumerate\<close> yields its elements one
  by one, the context unchanged in between.
\<close>

definition iterate_list :: "string list \<Rightarrow> error + 'r list \<Rightarrow> 'r run" where
  "iterate_list context res =
     (case res of
        Inl e \<Rightarrow> \<lparr>yielded = [], ending = Some e, context_after = context\<rparr>
      | Inr rs \<Rightarrow>
          \<lparr>yielded = map (\<lambda>r. (r, context)) rs, ending = None, context_after = context\<rparr>)"

definition Account_enumerate ::
  "('r, 'c, 'q) env \<Rightarrow> ('c, 'q) ARN \<Rightarrow> string list \<Rightarrow> 'c option \<Rightarrow> 'r run" where
  "Account_enumerate env arn context creds =
     level_enumerate env arn (account arn)
       (\<lambda>ctx. iterate_list ctx (Resource_enumerate env arn ctx creds)) context"

definition Region_enumerate ::
  "('r, 'c, 'q) env \<Rightarrow> ('c, 'q) ARN \<Rightarrow> string list \<Rightarrow> 'c option \<Rightarrow> 'r run" where
  "Region_enumerate env arn context creds =
     level_enumerate env arn (region arn)
       (\<lambda>ctx. Account_enumerate env arn ctx creds) context"

definition Service_enumerate ::
  "('r, 'c, 'q) env \<Rightarrow> ('c, 'q) ARN \<Rightarrow> string list \<Rightarrow> 'c option \<Rightarrow> 'r run" where
  "Service_enumerate env arn context creds =
     level_enumerate env arn (service arn)
       (\<lambda>ctx. Region_enumerate env arn ctx creds) context"

definition Provider_enumerate ::
  "('r, 'c, 'q) env \<Rightarrow> ('c, 'q) ARN \<Rightarrow> string list \<Rightarrow> 'c option \<Rightarrow> 'r run" where
  "Provider_enumerate env arn context creds =
     level_enumerate env arn (provider arn)
       (\<lambda>ctx. Service_enumerate env arn ctx creds) context"

definition Scheme_enumerate ::
  "('r, 'c, 'q) env \<Rightarrow> ('c, 'q) ARN \<Rightarrow> string list \<Rightarrow> 'c option \<Rightarrow> 'r run" where
  "Scheme_enumerate env arn context creds =
     level_enumerate env arn (scheme arn)
       (\<lambda>ctx. Provider_enumerate env arn ctx creds) context"

text \<open>
  The consumer takes \<open>k\<close> records and then drops the generator.  A generator that was
  never advanced has run none of its body; one dropped while suspended is closed at its
  \<open>yield\<close>, and no level has a \<open>finally\<close> that would run then, so the context stays as
  it was at that \<open>yield\<close>; asking for more records than there are runs it to its end.
\<close>

definition context_when_abandoned :: "nat \<Rightarrow> string list \<Rightarrow> 'r run \<Rightarrow> string list" where
  "context_when_abandoned k context t =
     (if k = 0 then context
      else if k \<le> length (yielded t) then snd (yielded t ! (k - 1))
      else context_after t)"

section \<open>The locator\<close>

definition ComponentClasses :: "component_class list" where
  "ComponentClasses = [Scheme, Provider, Service, Region, Account, Resource]"

text \<open>
  \<open>zip_longest(ComponentClasses, tokens, fillvalue='*')\<close>: the shorter side is filled
  with the string \<open>'*'\<close>, also when the shorter side is the list of classes.
\<close>

datatype callee = Class component_class | StrObj string

fun zip_longest :: "component_class list \<Rightarrow> string list \<Rightarrow> (callee \<times> string) list" where
  "zip_longest [] [] = []"
| "zip_longest (c # cs) [] = (Class c, ''*'') # zip_longest cs []"
| "zip_longest [] (n # ns) = (StrObj ''*'', n) # zip_longest [] ns"
| "zip_longest (c # cs) (n # ns) = (Class c, n) # zip_longest cs ns"

text \<open>\<open>c(n, self)\<close>: a class builds its component, a string is not callable.\<close>

fun construct :: "callee \<Rightarrow> string \<Rightarrow> error + component" where
  "construct (Class c) n = Inr (c, n)"
| "construct (StrObj s) n = Inl TypeError"

fun construct_all :: "(callee \<times> string) list \<Rightarrow> error + component list" where
  "construct_all [] = Inr []"
| "construct_all ((c, n) # pairs) =
     (case construct c n of
        Inl e \<Rightarrow> Inl e
      | Inr built \<Rightarrow>
          (case construct_all pairs of
             Inl e \<Rightarrow> Inl e
           | Inr comps \<Rightarrow> Inr (built # comps)))"

text \<open>
  \<open>ARN.__init__\<close> with \<open>_build_components_from_string\<close>: the result is the locator, or
  the exception that construction raised.
\<close>

definition build_components_from_string ::
  "('r, 'c, 'q) env \<Rightarrow> string \<Rightarrow> error + (component list \<times> 'q option)" where
  "build_components_from_string env arn_string =
     (case (if CHR ''|'' \<in> set arn_string
            then (case py_split_all (CHR ''|'') arn_string of
                    [arn_part, query_part] \<Rightarrow>
                      (case jmespath_compile env query_part of
                         Inl e \<Rightarrow> Inl e
                       | Inr q \<Rightarrow> Inr (arn_part, Some q))
                  | _ \<Rightarrow> Inl ValueError)
            else Inr (arn_string, None)) of
        Inl e \<Rightarrow> Inl e
      | Inr (arn_part, q) \<Rightarrow>
          (let pairs = zip_longest ComponentClasses (py_split (CHR '':'') 6 arn_part) in
           case construct_all pairs of
             Inl e \<Rightarrow> Inl e
           | Inr comps \<Rightarrow> Inr (comps, q)))"

definition ARN_init ::
  "('r, 'c, 'q) env \<Rightarrow> string \<Rightarrow> 'c option \<Rightarrow> error + ('c, 'q) ARN" where
  "ARN_init env arn_string creds =
     (case build_components_from_string env arn_string of
        Inl e \<Rightarrow> Inl e
      | Inr (comps, q) \<Rightarrow> Inr \<lparr>components = comps, query = q, aws_creds = creds\<rparr>)"

definition ARN_repr :: "('c, 'q) ARN \<Rightarrow> string" where
  "ARN_repr arn = py_join (CHR '':'') (map pattern (components arn))"

definition ARN_iter :: "('r, 'c, 'q) env \<Rightarrow> ('c, 'q) ARN \<Rightarrow> 'r run" where
  "ARN_iter env arn = Scheme_enumerate env arn [] (aws_creds arn)"

text \<open>
  The \<open>enumerate\<close> of the component of a given class.  At the resource level the call
  returns a list and never touches the context; it is seen here as the run that hands
  the list over element by element.
\<close>

fun enumerate_level ::
  "component_class \<Rightarrow> ('r, 'c, 'q) env \<Rightarrow> ('c, 'q) ARN \<Rightarrow> string list \<Rightarrow> 'c option
     \<Rightarrow> 'r run" where
  "enumerate_level Scheme env arn context creds = Scheme_enumerate env arn context creds"
| "enumerate_level Provider env arn context creds = Provider_enumerate env arn context creds"
| "enumerate_level Service env arn context creds = Service_enumerate env arn context creds"
| "enumerate_level Region env arn context creds = Region_enumerate env arn context creds"
| "enumerate_level Account env arn context creds = Account_enumerate env arn context creds"
| "enumerate_level Resource env arn context creds =
     iterate_list context (Resource_enumerate env arn context creds)"

text \<open>
  What a consumer receives from runs made one after the other: the records of each run
  in turn, and nothing after a run that ended in an exception.
\<close>

fun first_runs :: "('a \<Rightarrow> 'r run) \<Rightarrow> 'a list \<Rightarrow> 'r list" where
  "first_runs f [] = []"
| "first_runs f (m # ms) =
     records (f m) @ (if ending (f m) = None then first_runs f ms else [])"

text \<open>
  What a level's \<open>enumerate\<close> owes its caller, as a property of the function from the
  context at the call to the run: a run that ends normally leaves the context as it
  found it, a run that ends in an exception leaves it no shorter, and no record is
  yielded under a shorter context.
\<close>

abbreviation (input) stack_discipline :: "(string list \<Rightarrow> 'r run) \<Rightarrow> bool" where
  "stack_discipline nx \<equiv>
     \<forall>c. (ending (nx c) = None \<longrightarrow> context_after (nx c) = c)
        \<and> (\<forall>e. ending (nx c) = Some e \<longrightarrow> length c \<le> length (context_after (nx c)))
        \<and> (\<forall>x \<in> set (yielded (nx c)). length c \<le> length (snd x))"

section \<open>A concrete installation\<close>

text \<open>
  A small registry, configuration and locator for running the engine: two services,
  one resource class each, one account, records that are strings naming account,
  region and object.  \<open>gap_env\<close> differs in one point: the registry lists a resource
  type \<open>volume\<close> for which it has no class.
\<close>

definition demo_class :: "string list \<Rightarrow> (string, unit, string) resource_class" where
  "demo_class names arn reg acct resource_id creds =
     Inr (map (\<lambda>n. acct @ CHR ''/'' # reg @ CHR ''/'' # n) names)"

definition demo_env :: "(string, unit, string) env" where
  "demo_env =
     \<lparr>re_compile = re_fragment,
      all_services = (\<lambda>prov. if prov = ''aws'' then [''ec2'', ''s3''] else []),
      all_types = (\<lambda>prov svc.
         if prov = ''aws'' \<and> svc = ''ec2'' then [''instance'']
         else if prov = ''aws'' \<and> svc = ''s3'' then [''bucket'']
         else []),
      find_resource_class = (\<lambda>path.
         if path = ''aws.ec2.instance'' then Inr (demo_class [''i-1'', ''i-2''])
         else if path = ''aws.s3.bucket'' then Inr (demo_class [''b-1''])
         else Inl (External ''KeyError'')),
      accounts = [''123''],
      jmespath_compile = Inr\<rparr>"

definition gap_env :: "(string, unit, string) env" where
  "gap_env =
     demo_env\<lparr>all_types := (\<lambda>prov svc.
        if prov = ''aws'' \<and> svc = ''ec2'' then [''instance'', ''volume'']
        else if prov = ''aws'' \<and> svc = ''s3'' then [''bucket'']
        else [])\<rparr>"

text \<open>
  \<open>wide_env\<close> has two accounts and a second resource class under \<open>ec2\<close>, so that every
  level below the provider has more than one match.
\<close>

definition wide_env :: "(string, unit, string) env" where
  "wide_env =
     demo_env\<lparr>all_types := (\<lambda>prov svc.
        if prov = ''aws'' \<and> svc = ''ec2'' then [''instance'', ''image'']
        else if prov = ''aws'' \<and> svc = ''s3'' then [''bucket'']
        else []),
      find_resource_class := (\<lambda>path.
         if path = ''aws.ec2.instance'' then Inr (demo_class [''i-1'', ''i-2''])
         else if path = ''aws.ec2.image'' then Inr (demo_class [''ami-1''])
         else if path = ''aws.s3.bucket'' then Inr (demo_class [''b-1''])
         else Inl (External ''KeyError'')),
      accounts := [''123'', ''456'']\<rparr>"

definition demo_arn :: "string list \<Rightarrow> (unit, string) ARN" where
  "demo_arn tokens =
     \<lparr>components = zip ComponentClasses tokens, query = None, aws_creds = None\<rparr>"

section \<open>The matcher\<close>

lemma match_loop_filter: "match_loop rx cs acc = acc @ filter rx cs"
  by (induction cs arbitrary: acc) simp_all

lemma ARNComponent_match_compiled:
  "re_compile env (if pat = ''*'' then ''.*'' else pat) = Some rx \<Longrightarrow>
   ARNComponent_match env (Inr chs) pat = Inr (filter rx chs)"
  by (simp add: ARNComponent_match_def Let_def match_loop_filter)

lemma match_here_dot_star: "match_here [(Dot, True)] s"
  by (induction s) simp_all

lemma search_dot_star: "search_items [(Dot, True)] s"
  by (cases s) (simp_all add: match_here_dot_star)

lemma re_fragment_wildcard: "re_fragment ''.*'' = Some (search_items [(Dot, True)])"
  by (simp add: re_fragment_def)

lemma wildcard_matches_all:
  assumes lib: "re_compile env = re_fragment"
  shows "ARNComponent_match env (Inr chs) ''*'' = Inr chs"
proof -
  have "re_compile env (if ''*'' = ''*'' then ''.*'' else ''*'') =
          Some (search_items [(Dot, True)])"
    by (simp add: lib re_fragment_wildcard)
  then have "ARNComponent_match env (Inr chs) ''*'' =
               Inr (filter (search_items [(Dot, True)]) chs)"
    by (rule ARNComponent_match_compiled)
  then show ?thesis
    by (simp add: search_dot_star)
qed

lemma east_is_found:
  assumes lib: "re_compile env = re_fragment"
  shows "ARNComponent_match env (Inr [''us-west-2'', ''us-east-1'', ''eu-west-1'']) ''east''
           = Inr [''us-east-1'']"
  by (simp add: ARNComponent_match_def lib re_fragment_def)

text \<open>
  C5, as stated, fails: a pattern that \<open>re.compile\<close> rejects, here \<open>us-**\<close> whose second
  star has nothing to repeat, makes \<open>match\<close> raise instead of returning candidates,
  although the region level has four candidates for the service.
\<close>

theorem invalid_pattern_counterexample:
  "choices demo_env (demo_arn [''arn'', ''aws'', ''*'', ''*'', ''*'', ''*'']) Region
       (Some [''arn'', ''aws'', ''lambda'']) =
       Inr [''us-east-1'', ''us-west-2'', ''eu-west-1'', ''ap-northeast-1'']
   \<and> match demo_env (demo_arn [''arn'', ''aws'', ''*'', ''*'', ''*'', ''*'']) Region ''us-**''
       (Some [''arn'', ''aws'', ''lambda'']) = Inl ReError"
  by code_simp

text \<open>
  C5, amended.  Whenever the pattern compiles (the wildcard \<open>*\<close> is compiled as \<open>.*\<close>),
  \<open>match\<close> of a component that does not override it returns exactly the candidates of
  \<open>choices(context)\<close> on which the compiled pattern's search succeeds, in the order of
  \<open>choices\<close>.  With the regex fragment, the pattern \<open>*\<close> returns every candidate, and the
  pattern \<open>east\<close> finds \<open>us-east-1\<close>, of which it is a proper substring, and not
  \<open>us-west-2\<close> or \<open>eu-west-1\<close>.  When the pattern does not compile, \<open>match\<close> raises
  \<open>re.error\<close> and returns nothing.
\<close>

theorem match_filters_choices:
  "(\<forall>env arn cls pat context chs rx.
      cls \<noteq> Resource \<and> choices env arn cls context = Inr chs \<and>
      re_compile env (if pat = ''*'' then ''.*'' else pat) = Some rx
      \<longrightarrow> match env arn cls pat context = Inr (filter rx chs))
   \<and> (\<forall>env chs. re_compile env = re_fragment
        \<longrightarrow> ARNComponent_match env (Inr chs) ''*'' = Inr chs)
   \<and> (\<forall>env. re_compile env = re_fragment
        \<longrightarrow> ARNComponent_match env (Inr [''us-west-2'', ''us-east-1'', ''eu-west-1'']) ''east''
            = Inr [''us-east-1''])
   \<and> (\<forall>env arn cls pat context.
        cls \<noteq> Resource \<and> re_compile env (if pat = ''*'' then ''.*'' else pat) = None
        \<longrightarrow> match env arn cls pat context = Inl ReError)"
  apply (intro conjI allI impI)
     apply (simp add: match_def ARNComponent_match_compiled)
    apply (erule wildcard_matches_all)
   apply (erule east_is_found)
  apply (simp add: match_def ARNComponent_match_def Let_def)
  done

theorem match_filters_choices_witness:
  "Region \<noteq> Resource
   \<and> choices demo_env (demo_arn [''arn'', ''aws'', ''*'', ''*'', ''*'', ''*'']) Region
       (Some [''arn'', ''aws'', ''lambda'']) =
       Inr [''us-east-1'', ''us-west-2'', ''eu-west-1'', ''ap-northeast-1'']
   \<and> re_compile demo_env (if ''west'' = ''*'' then ''.*'' else ''west'') =
       Some (search_items [(Lit CHR ''w'', False), (Lit CHR ''e'', False),
                           (Lit CHR ''s'', False), (Lit CHR ''t'', False)])
   \<and> match demo_env (demo_arn [''arn'', ''aws'', ''*'', ''*'', ''*'', ''*'']) Region ''west''
       (Some [''arn'', ''aws'', ''lambda'']) = Inr [''us-west-2'', ''eu-west-1'']
   \<and> re_compile demo_env = re_fragment
   \<and> ARNComponent_match demo_env (Inr [''a'', ''b'']) ''*'' = Inr [''a'', ''b'']
   \<and> re_compile demo_env (if ''w**'' = ''*'' then ''.*'' else ''w**'') = None
   \<and> match demo_env (demo_arn [''arn'', ''aws'', ''*'', ''*'', ''*'', ''*'']) Region ''w**''
       (Some [''arn'', ''aws'', ''lambda'']) = Inl ReError"
proof -
  let ?arn = "demo_arn [''arn'', ''aws'', ''*'', ''*'', ''*'', ''*'']"
  let ?rx = "search_items [(Lit CHR ''w'', False), (Lit CHR ''e'', False),
                           (Lit CHR ''s'', False), (Lit CHR ''t'', False)]"
  let ?chs = "[''us-east-1'', ''us-west-2'', ''eu-west-1'', ''ap-northeast-1'']"
  have n: "Region \<noteq> Resource" by simp
  have c: "choices demo_env ?arn Region (Some [''arn'', ''aws'', ''lambda'']) = Inr ?chs"
    by (simp add: Region_choices_def truthy_def py_index_def service_region_map_def)
  have lib: "re_compile demo_env = re_fragment"
    by (simp add: demo_env_def)
  have r: "re_compile demo_env (if ''west'' = ''*'' then ''.*'' else ''west'') = Some ?rx"
    by (simp add: lib re_fragment_def)
  have f: "filter ?rx ?chs = [''us-west-2'', ''eu-west-1'']"
    by simp
  have m: "match demo_env ?arn Region ''west'' (Some [''arn'', ''aws'', ''lambda'']) =
             Inr (filter ?rx ?chs)"
    using match_filters_choices [THEN conjunct1, rule_format, of Region demo_env ?arn
        "Some [''arn'', ''aws'', ''lambda'']" ?chs "''west''" ?rx] n c r
    by blast
  have w: "ARNComponent_match demo_env (Inr [''a'', ''b'']) ''*'' = Inr [''a'', ''b'']"
    using match_filters_choices [THEN conjunct2, THEN conjunct1, rule_format, of demo_env] lib
    by blast
  have x: "re_compile demo_env (if ''w**'' = ''*'' then ''.*'' else ''w**'') = None"
    by (simp add: lib re_fragment_def)
  have y: "match demo_env ?arn Region ''w**'' (Some [''arn'', ''aws'', ''lambda'']) =
             Inl ReError"
    using match_filters_choices [THEN conjunct2, THEN conjunct2, THEN conjunct2, rule_format,
        of Region demo_env "''w**''" ?arn "Some [''arn'', ''aws'', ''lambda'']"] n x
    by blast
  from n c r m f lib w x y show ?thesis
    by simp
qed

text \<open>
  C8, as stated, fails: the pattern is compiled before the candidates are looked at, so
  a pattern that \<open>re.compile\<close> rejects, here \<open>*a\<close> with nothing to repeat, raises although
  the candidate set is empty.
\<close>

theorem empty_choices_counterexample:
  "ARNComponent_match demo_env (Inr []) ''*a'' = Inl ReError"
  by (simp add: ARNComponent_match_def demo_env_def re_fragment_def)

text \<open>
  C8, amended.  For every pattern that compiles (the wildcard \<open>*\<close> is compiled as \<open>.*\<close>),
  an empty candidate set gives the empty list and no error; for a pattern that does not
  compile, \<open>match\<close> raises \<open>re.error\<close> whatever the candidates.
\<close>

theorem empty_choices_empty_match:
  "(\<forall>env pat. re_compile env (if pat = ''*'' then ''.*'' else pat) \<noteq> None
      \<longrightarrow> ARNComponent_match env (Inr []) pat = Inr [])
   \<and> (\<forall>env pat. re_compile env (if pat = ''*'' then ''.*'' else pat) = None
      \<longrightarrow> ARNComponent_match env (Inr []) pat = Inl ReError)"
  by (auto simp: ARNComponent_match_def Let_def)

theorem empty_choices_empty_match_witness:
  "re_compile demo_env (if ''*'' = ''*'' then ''.*'' else ''*'') \<noteq> None
   \<and> ARNComponent_match demo_env (Inr []) ''*'' = Inr []
   \<and> re_compile demo_env (if ''**'' = ''*'' then ''.*'' else ''**'') = None
   \<and> ARNComponent_match demo_env (Inr []) ''**'' = Inl ReError"
proof -
  have a: "re_compile demo_env (if ''*'' = ''*'' then ''.*'' else ''*'') \<noteq> None"
    by (simp add: demo_env_def re_fragment_def)
  have b: "re_compile demo_env (if ''**'' = ''*'' then ''.*'' else ''**'') = None"
    by (simp add: demo_env_def re_fragment_def)
  from empty_choices_empty_match a b show ?thesis by blast
qed

section \<open>Splitting strings\<close>

lemma break_at_absent: "sep \<notin> set s \<Longrightarrow> break_at sep s = None"
  by (induction s) auto

lemma break_at_first: "sep \<notin> set a \<Longrightarrow> break_at sep (a @ sep # b) = Some (a, b)"
  by (induction a) auto

lemma split_resource_slash:
  "CHR ''/'' \<notin> set t \<Longrightarrow> split_resource (t @ CHR ''/'' # i) = (t, Some i)"
  by (simp add: split_resource_def break_at_first)

lemma split_resource_colon:
  "CHR '':'' \<notin> set t \<Longrightarrow> CHR ''/'' \<notin> set t \<Longrightarrow> CHR ''/'' \<notin> set i \<Longrightarrow>
   split_resource (t @ CHR '':'' # i) = (t, Some i)"
  by (simp add: split_resource_def break_at_first)

lemma split_resource_plain:
  "CHR '':'' \<notin> set t \<Longrightarrow> CHR ''/'' \<notin> set t \<Longrightarrow> split_resource t = (t, None)"
  by (simp add: split_resource_def)

text \<open>
  C6.  \<open>bucket/my-bucket\<close> splits into type \<open>bucket\<close> and id \<open>my-bucket\<close>,
  \<open>queue:my-queue\<close> into \<open>queue\<close> and \<open>my-queue\<close>, \<open>topic\<close> into \<open>topic\<close> and no id.  In
  general the pattern is cut at its first \<open>/\<close> when it has one, else at its first \<open>:\<close>
  when it has one, else it is the type and there is no id.  \<open>Resource.match\<close> is the base
  \<open>match\<close> on the resource candidates with the type part of the pattern alone.
\<close>

theorem split_resource_cases:
  "split_resource ''bucket/my-bucket'' = (''bucket'', Some ''my-bucket'')
   \<and> split_resource ''queue:my-queue'' = (''queue'', Some ''my-queue'')
   \<and> split_resource ''topic'' = (''topic'', None)
   \<and> (\<forall>t i. CHR ''/'' \<notin> set t \<longrightarrow> split_resource (t @ CHR ''/'' # i) = (t, Some i))
   \<and> (\<forall>t i. CHR '':'' \<notin> set t \<and> CHR ''/'' \<notin> set t \<and> CHR ''/'' \<notin> set i
        \<longrightarrow> split_resource (t @ CHR '':'' # i) = (t, Some i))
   \<and> (\<forall>t. CHR '':'' \<notin> set t \<and> CHR ''/'' \<notin> set t \<longrightarrow> split_resource t = (t, None))
   \<and> (\<forall>env arn pat context.
        match env arn Resource pat context =
          ARNComponent_match env (choices env arn Resource context)
            (fst (split_resource pat)))"
  apply (intro conjI allI impI)
        apply (simp add: split_resource_def)
       apply (simp add: split_resource_def)
      apply (simp add: split_resource_def)
     apply (simp add: split_resource_slash)
    apply (simp add: split_resource_colon)
   apply (simp add: split_resource_plain)
  apply (simp add: match_def Resource_match_def)
  done

theorem split_resource_cases_witness:
  "CHR ''/'' \<notin> set ''queue:a''
   \<and> split_resource (''queue:a'' @ CHR ''/'' # ''b'') = (''queue:a'', Some ''b'')
   \<and> CHR '':'' \<notin> set ''queue'' \<and> CHR ''/'' \<notin> set ''queue'' \<and> CHR ''/'' \<notin> set ''a:b''
   \<and> split_resource (''queue'' @ CHR '':'' # ''a:b'') = (''queue'', Some ''a:b'')
   \<and> CHR '':'' \<notin> set ''t.*'' \<and> CHR ''/'' \<notin> set ''t.*''
   \<and> split_resource ''t.*'' = (''t.*'', None)"
proof -
  have a: "CHR ''/'' \<notin> set ''queue:a''" by simp
  have b: "CHR '':'' \<notin> set ''queue'' \<and> CHR ''/'' \<notin> set ''queue'' \<and> CHR ''/'' \<notin> set ''a:b''"
    by simp
  have c: "CHR '':'' \<notin> set ''t.*'' \<and> CHR ''/'' \<notin> set ''t.*''" by simp
  note main = split_resource_cases [THEN conjunct2, THEN conjunct2, THEN conjunct2]
  from main [THEN conjunct1, rule_format, OF a, of "''b''"]
    main [THEN conjunct2, THEN conjunct1, rule_format, OF b]
    main [THEN conjunct2, THEN conjunct2, THEN conjunct1, rule_format, OF c]
    a b c
  show ?thesis by blast
qed


section \<open>Region candidates\<close>

text \<open>
  C7.  With a context that reaches index 2, \<open>Region.choices\<close> returns the list that the
  table gives for the service \<open>context[2]\<close> when the service is one of the six keys of
  the table, and the full list of nine regions for any other service.
\<close>

theorem Region_choices_with_context:
  assumes "2 < length context"
  shows "Region_choices arn (Some context) =
     Inr (if context ! 2 \<in> {''redshift'', ''glacier'', ''kinesis''}
          then [''us-east-1'', ''us-west-2'', ''eu-west-1'',
                ''ap-southeast-1'', ''ap-southeast-2'', ''ap-northeast-1'']
          else if context ! 2 \<in> {''iam'', ''route53''} then ['''']
          else if context ! 2 = ''lambda''
          then [''us-east-1'', ''us-west-2'', ''eu-west-1'', ''ap-northeast-1'']
          else [''us-east-1'', ''us-west-1'', ''us-west-2'', ''eu-west-1'', ''eu-central-1'',
                ''ap-southeast-1'', ''ap-southeast-2'', ''ap-northeast-1'', ''sa-east-1''])"
proof -
  from assms have "context \<noteq> []" by auto
  with assms show ?thesis
    by (simp add: Region_choices_def truthy_def py_index_def service_region_map_def
        region_names_limited_def no_region_required_def all_region_names_def)
qed

theorem Region_choices_with_context_witness:
  "2 < length [''arn'', ''aws'', ''iam''] \<and>
   Region_choices (demo_arn [''arn'', ''aws'', ''*'', ''*'', ''*'', ''*''])
     (Some [''arn'', ''aws'', ''iam'']) = Inr ['''']
   \<and> 2 < length [''arn'', ''aws'', ''ec2''] \<and>
   Region_choices (demo_arn [''arn'', ''aws'', ''*'', ''*'', ''*'', ''*''])
     (Some [''arn'', ''aws'', ''ec2'']) = Inr all_region_names"
  using Region_choices_with_context [of "[''arn'', ''aws'', ''iam'']"
          "demo_arn [''arn'', ''aws'', ''*'', ''*'', ''*'', ''*'']"]
        Region_choices_with_context [of "[''arn'', ''aws'', ''ec2'']"
          "demo_arn [''arn'', ''aws'', ''*'', ''*'', ''*'', ''*'']"]
  by (simp add: all_region_names_def)

text \<open>
  C4 does not hold of the code: without a context \<open>Region.choices\<close> looks up
  \<open>self._arn.service\<close>, the component object and not its pattern (as \<open>Service.choices\<close>
  and \<open>Resource.choices\<close> do with \<open>.pattern\<close>), so no key of the table is ever found.
  The locator built from \<open>arn:aws:iam:*:*:*\<close> gets the full list of regions, where
  the same service read from a context gets the restricted list.
\<close>

theorem Region_choices_without_context:
  "ARN_init env ''arn:aws:iam:*:*:*'' creds =
     Inr \<lparr>components = [(Scheme, ''arn''), (Provider, ''aws''), (Service, ''iam''),
                        (Region, ''*''), (Account, ''*''), (Resource, ''*'')],
          query = None, aws_creds = creds\<rparr>
   \<and> Region_choices
       \<lparr>components = [(Scheme, ''arn''), (Provider, ''aws''), (Service, ''iam''),
                      (Region, ''*''), (Account, ''*''), (Resource, ''*'')],
        query = None, aws_creds = creds\<rparr> None
     = Inr [''us-east-1'', ''us-west-1'', ''us-west-2'', ''eu-west-1'', ''eu-central-1'',
            ''ap-southeast-1'', ''ap-southeast-2'', ''ap-northeast-1'', ''sa-east-1'']
   \<and> Region_choices
       \<lparr>components = [(Scheme, ''arn''), (Provider, ''aws''), (Service, ''iam''),
                      (Region, ''*''), (Account, ''*''), (Resource, ''*'')],
        query = None, aws_creds = creds\<rparr> (Some [''arn'', ''aws'', ''iam''])
     = Inr ['''']"
  by (simp add: ARN_init_def build_components_from_string_def ComponentClasses_def
      numeral_eq_Suc Region_choices_def truthy_def py_index_def service_region_map_def
      all_region_names_def no_region_required_def)

section \<open>Building the locator\<close>

text \<open>
  C2 does not hold of the code: \<open>split(':', 6)\<close> cuts six times and so returns up to
  seven tokens.  On \<open>arn:aws:sqs:us-east-1:123:queue:my-queue\<close> the seventh token is
  paired with the fill value \<open>'*'\<close> in the place of a class, and calling it raises
  \<open>TypeError\<close>: no locator is built.
\<close>

theorem seven_tokens_raise:
  "ARN_init env ''arn:aws:sqs:us-east-1:123:queue:my-queue'' creds = Inl TypeError
   \<and> py_split (CHR '':'') 6 ''arn:aws:sqs:us-east-1:123:queue:my-queue'' =
       [''arn'', ''aws'', ''sqs'', ''us-east-1'', ''123'', ''queue'', ''my-queue'']"
  by (simp add: ARN_init_def build_components_from_string_def ComponentClasses_def
      numeral_eq_Suc)

lemma py_split_join:
  "ts \<noteq> [] \<Longrightarrow> \<forall>t \<in> set ts. sep \<notin> set t \<Longrightarrow> length ts \<le> Suc n \<Longrightarrow>
   py_split sep n (py_join sep ts) = ts"
proof (induction sep ts arbitrary: n rule: py_join.induct)
  case (1 sep)
  then show ?case by simp
next
  case (2 sep x)
  then show ?case by (cases n) (simp_all add: break_at_absent)
next
  case (3 sep x y ys)
  then obtain m where n: "n = Suc m" by (cases n) auto
  from 3 have "py_split sep m (py_join sep (y # ys)) = y # ys"
    by (simp add: n)
  with 3 show ?case
    by (simp add: n break_at_first)
qed

lemma set_py_join: "set (py_join sep ts) \<subseteq> insert sep (\<Union>t \<in> set ts. set t)"
  by (induction sep ts rule: py_join.induct) auto

lemma construct_all_classes:
  "length cs = length ns \<Longrightarrow>
   construct_all (zip_longest cs ns) = Inr (zip cs ns)"
  by (induction cs ns rule: list_induct2) simp_all

lemma map_pattern_zip: "length cs = length ns \<Longrightarrow> map pattern (zip cs ns) = ns"
  by (induction cs ns rule: list_induct2) (simp_all add: pattern_def)

lemma ARN_init_six_tokens:
  assumes len: "length ts = 6"
    and colon: "\<forall>t \<in> set ts. CHR '':'' \<notin> set t"
    and bar: "\<forall>t \<in> set ts. CHR ''|'' \<notin> set t"
  shows "ARN_init env (py_join (CHR '':'') ts) creds =
     Inr \<lparr>components = zip ComponentClasses ts, query = None, aws_creds = creds\<rparr>"
proof -
  from len have ne: "ts \<noteq> []" by auto
  have nobar: "CHR ''|'' \<notin> set (py_join (CHR '':'') ts)"
    using set_py_join [of "CHR '':''" ts] bar by auto
  have sp: "py_split (CHR '':'') 6 (py_join (CHR '':'') ts) = ts"
    using py_split_join [OF ne colon, of 6] len by simp
  have l: "length ComponentClasses = length ts"
    by (simp add: len ComponentClasses_def)
  show ?thesis
    by (simp add: ARN_init_def build_components_from_string_def nobar sp
        construct_all_classes [OF l])
qed

text \<open>
  C10.  For a string made of exactly six tokens joined by colons, no token containing a
  colon or a \<open>|\<close>, construction succeeds and the representation of the locator is the
  string itself.
\<close>

theorem repr_round_trip:
  assumes "length ts = 6"
    and "\<forall>t \<in> set ts. CHR '':'' \<notin> set t \<and> CHR ''|'' \<notin> set t"
  shows "map_sum id ARN_repr (ARN_init env (py_join (CHR '':'') ts) creds) =
           Inr (py_join (CHR '':'') ts)"
proof -
  have l: "length ComponentClasses = length ts"
    by (simp add: assms(1) ComponentClasses_def)
  from assms show ?thesis
    by (simp add: ARN_init_six_tokens ARN_repr_def map_pattern_zip [OF l])
qed

theorem repr_round_trip_witness:
  "length [''arn'', ''aws'', ''ec2'', ''us-.*'', '''', ''instance/i-1''] = 6
   \<and> py_join (CHR '':'') [''arn'', ''aws'', ''ec2'', ''us-.*'', '''', ''instance/i-1'']
       = ''arn:aws:ec2:us-.*::instance/i-1''
   \<and> map_sum id ARN_repr (ARN_init demo_env ''arn:aws:ec2:us-.*::instance/i-1'' None) =
           Inr ''arn:aws:ec2:us-.*::instance/i-1''"
  using repr_round_trip [of "[''arn'', ''aws'', ''ec2'', ''us-.*'', '''', ''instance/i-1'']"
      demo_env None]
  by simp

section \<open>The context stack\<close>

lemma level_loop_props:
  assumes nx: "stack_discipline nx"
  shows "(ending (level_loop nx ms ctx) = None \<longrightarrow> context_after (level_loop nx ms ctx) = ctx)
      \<and> (\<forall>e. ending (level_loop nx ms ctx) = Some e
             \<longrightarrow> length ctx < length (context_after (level_loop nx ms ctx)))
      \<and> (\<forall>x \<in> set (yielded (level_loop nx ms ctx)). length ctx < length (snd x))"
proof (induction ms arbitrary: ctx)
  case Nil
  show ?case by simp
next
  case (Cons m ms)
  let ?sub = "nx (ctx @ [m])"
  from nx have yl: "\<forall>x \<in> set (yielded ?sub). length ctx < length (snd x)"
    by fastforce
  show ?case
  proof (cases "ending ?sub")
    case (Some e)
    then have eq: "level_loop nx (m # ms) ctx = ?sub" by simp
    from nx Some have "length (ctx @ [m]) \<le> length (context_after ?sub)" by blast
    then have "length ctx < length (context_after ?sub)" by simp
    with yl show ?thesis using Some unfolding eq by simp
  next
    case None
    with nx have ca: "context_after ?sub = ctx @ [m]" by blast
    let ?rest = "level_loop nx ms ctx"
    have eq: "level_loop nx (m # ms) ctx = ?rest\<lparr>yielded := yielded ?sub @ yielded ?rest\<rparr>"
      using None ca by (simp add: Let_def)
    from yl Cons.IH [of ctx] show ?thesis
      unfolding eq by auto
  qed
qed

lemma level_enumerate_discipline:
  assumes nx: "stack_discipline nx"
  shows "stack_discipline (level_enumerate env arn self nx)"
proof (intro allI)
  fix c
  show "(ending (level_enumerate env arn self nx c) = None \<longrightarrow>
          context_after (level_enumerate env arn self nx c) = c)
      \<and> (\<forall>e. ending (level_enumerate env arn self nx c) = Some e \<longrightarrow>
             length c \<le> length (context_after (level_enumerate env arn self nx c)))
      \<and> (\<forall>x \<in> set (yielded (level_enumerate env arn self nx c)). length c \<le> length (snd x))"
  proof (cases "matches env arn self (Some c)")
    case (Inl e)
    then show ?thesis by (simp add: level_enumerate_def)
  next
    case (Inr ms)
    with level_loop_props [OF nx, of ms c] show ?thesis
      by (auto simp: level_enumerate_def dest: less_imp_le)
  qed
qed

lemma level_enumerate_yields_deeper:
  assumes nx: "stack_discipline nx"
    and x: "x \<in> set (yielded (level_enumerate env arn self nx c))"
  shows "length c < length (snd x)"
proof (cases "matches env arn self (Some c)")
  case (Inl e)
  with x show ?thesis by (simp add: level_enumerate_def)
next
  case (Inr ms)
  with level_loop_props [OF nx, of ms c] x show ?thesis
    by (auto simp: level_enumerate_def)
qed

lemma iterate_list_discipline: "stack_discipline (\<lambda>c. iterate_list c (f c))"
proof (intro allI)
  fix c
  show "(ending (iterate_list c (f c)) = None \<longrightarrow> context_after (iterate_list c (f c)) = c)
      \<and> (\<forall>e. ending (iterate_list c (f c)) = Some e \<longrightarrow>
             length c \<le> length (context_after (iterate_list c (f c))))
      \<and> (\<forall>x \<in> set (yielded (iterate_list c (f c))). length c \<le> length (snd x))"
    by (cases "f c") (auto simp: iterate_list_def)
qed

lemma Account_discipline: "stack_discipline (\<lambda>c. Account_enumerate env arn c creds)"
  unfolding Account_enumerate_def
  by (rule level_enumerate_discipline) (rule iterate_list_discipline)

lemma Region_discipline: "stack_discipline (\<lambda>c. Region_enumerate env arn c creds)"
  unfolding Region_enumerate_def
  by (rule level_enumerate_discipline) (rule Account_discipline)

lemma Service_discipline: "stack_discipline (\<lambda>c. Service_enumerate env arn c creds)"
  unfolding Service_enumerate_def
  by (rule level_enumerate_discipline) (rule Region_discipline)

lemma Provider_discipline: "stack_discipline (\<lambda>c. Provider_enumerate env arn c creds)"
  unfolding Provider_enumerate_def
  by (rule level_enumerate_discipline) (rule Service_discipline)

lemma Scheme_discipline: "stack_discipline (\<lambda>c. Scheme_enumerate env arn c creds)"
  unfolding Scheme_enumerate_def
  by (rule level_enumerate_discipline) (rule Provider_discipline)

lemma enumerate_level_discipline:
  "stack_discipline (\<lambda>c. enumerate_level cls env arn c creds)"
proof (cases cls)
  case Scheme
  then show ?thesis using Scheme_discipline [of env arn creds] by simp
next
  case Provider
  then show ?thesis using Provider_discipline [of env arn creds] by simp
next
  case Service
  then show ?thesis using Service_discipline [of env arn creds] by simp
next
  case Region
  then show ?thesis using Region_discipline [of env arn creds] by simp
next
  case Account
  then show ?thesis using Account_discipline [of env arn creds] by simp
next
  case Resource
  then show ?thesis
    using iterate_list_discipline [of "\<lambda>c. Resource_enumerate env arn c creds"] by simp
qed

lemma enumerate_level_yields_deeper:
  assumes "cls \<noteq> Resource"
    and "x \<in> set (yielded (enumerate_level cls env arn c creds))"
  shows "length c < length (snd x)"
proof (cases cls)
  case Scheme
  with assms(2) show ?thesis
    unfolding Scheme enumerate_level.simps Scheme_enumerate_def
    by (intro level_enumerate_yields_deeper [OF Provider_discipline])
next
  case Provider
  with assms(2) show ?thesis
    unfolding Provider enumerate_level.simps Provider_enumerate_def
    by (intro level_enumerate_yields_deeper [OF Service_discipline])
next
  case Service
  with assms(2) show ?thesis
    unfolding Service enumerate_level.simps Service_enumerate_def
    by (intro level_enumerate_yields_deeper [OF Region_discipline])
next
  case Region
  with assms(2) show ?thesis
    unfolding Region enumerate_level.simps Region_enumerate_def
    by (intro level_enumerate_yields_deeper [OF Account_discipline])
next
  case Account
  with assms(2) show ?thesis
    unfolding Account enumerate_level.simps Account_enumerate_def
    by (intro level_enumerate_yields_deeper [OF iterate_list_discipline])
next
  case Resource
  with assms(1) show ?thesis by simp
qed

text \<open>
  C1, as stated, fails.  With a registry that lists a resource type it has no class
  for, the lookup raises inside \<open>Resource.enumerate\<close>; the exception leaves every
  generator between its append and its pop, and the context that was empty before the
  call holds five values after it.  And a consumer that takes one record of a
  traversal that would have completed, then drops the generator, leaves the same five
  values on the context.
\<close>

theorem context_left_behind_counterexample:
  "ending (enumerate_level Scheme gap_env
             (demo_arn [''arn'', ''aws'', ''ec2'', ''us-east-1'', ''*'', ''*'']) [] None)
     = Some (External ''KeyError'')
   \<and> context_after (enumerate_level Scheme gap_env
             (demo_arn [''arn'', ''aws'', ''ec2'', ''us-east-1'', ''*'', ''*'']) [] None)
     = [''arn'', ''aws'', ''ec2'', ''us-east-1'', ''123'']
   \<and> records (enumerate_level Scheme demo_env
             (demo_arn [''arn'', ''aws'', ''ec2'', ''us-east-1'', ''*'', ''*'']) [] None)
     = [''123/us-east-1/i-1'', ''123/us-east-1/i-2'']
   \<and> context_when_abandoned 1 [] (enumerate_level Scheme demo_env
             (demo_arn [''arn'', ''aws'', ''ec2'', ''us-east-1'', ''*'', ''*'']) [] None)
     = [''arn'', ''aws'', ''ec2'', ''us-east-1'', ''123'']"
  by code_simp

text \<open>
  C1, amended.  For every level, a call to \<open>enumerate\<close> whose traversal runs to its end
  without an exception leaves the context as it was before the call; a level with no
  match yields nothing and ends so.  When the consumer abandons the sequence of one of
  the five generator levels after a record, the context is left longer than it was
  before the call.
\<close>

theorem context_restored_on_completion:
  "(\<forall>cls. ending (enumerate_level cls env arn ctx creds) = None
        \<longrightarrow> context_after (enumerate_level cls env arn ctx creds) = ctx)
   \<and> (\<forall>self nx. matches env arn self (Some ctx) = Inr []
        \<longrightarrow> level_enumerate env arn self nx ctx =
             \<lparr>yielded = [], ending = None, context_after = ctx\<rparr>)
   \<and> (\<forall>cls k. cls \<noteq> Resource \<and> 0 < k
          \<and> k \<le> length (yielded (enumerate_level cls env arn ctx creds))
        \<longrightarrow> length ctx <
              length (context_when_abandoned k ctx (enumerate_level cls env arn ctx creds)))"
proof (intro conjI allI impI)
  fix cls
  assume "ending (enumerate_level cls env arn ctx creds) = None"
  with enumerate_level_discipline [of cls env arn creds]
  show "context_after (enumerate_level cls env arn ctx creds) = ctx"
    by blast
next
  fix self :: component and nx :: "string list \<Rightarrow> 'a run"
  assume "matches env arn self (Some ctx) = Inr []"
  then show "level_enumerate env arn self nx ctx =
             \<lparr>yielded = [], ending = None, context_after = ctx\<rparr>"
    by (simp add: level_enumerate_def)
next
  fix cls k
  let ?t = "enumerate_level cls env arn ctx creds"
  assume a: "cls \<noteq> Resource \<and> 0 < k \<and> k \<le> length (yielded ?t)"
  then have "yielded ?t ! (k - 1) \<in> set (yielded ?t)"
    by (intro nth_mem) arith
  with a have "length ctx < length (snd (yielded ?t ! (k - 1)))"
    by (intro enumerate_level_yields_deeper [of cls _ env arn ctx creds]) simp_all
  with a show "length ctx < length (context_when_abandoned k ctx ?t)"
    by (simp add: context_when_abandoned_def)
qed

theorem context_restored_on_completion_witness:
  "ending (enumerate_level Scheme demo_env
             (demo_arn [''arn'', ''aws'', ''ec2'', ''us-east-1'', ''*'', ''*'']) [] None) = None
   \<and> context_after (enumerate_level Scheme demo_env
             (demo_arn [''arn'', ''aws'', ''ec2'', ''us-east-1'', ''*'', ''*'']) [] None) = []
   \<and> matches demo_env (demo_arn [''arn'', ''aws'', ''ec2'', ''us-east-1'', ''*'', ''*''])
       (Region, ''mars'') (Some [''arn'', ''aws'', ''ec2'']) = Inr []
   \<and> level_enumerate demo_env (demo_arn [''arn'', ''aws'', ''ec2'', ''us-east-1'', ''*'', ''*''])
       (Region, ''mars'')
       (\<lambda>c. Account_enumerate demo_env
               (demo_arn [''arn'', ''aws'', ''ec2'', ''us-east-1'', ''*'', ''*'']) c None)
       [''arn'', ''aws'', ''ec2''] =
       \<lparr>yielded = [], ending = None, context_after = [''arn'', ''aws'', ''ec2'']\<rparr>
   \<and> Scheme \<noteq> Resource \<and> (0::nat) < 1
   \<and> 1 \<le> length (yielded (enumerate_level Scheme demo_env
             (demo_arn [''arn'', ''aws'', ''ec2'', ''us-east-1'', ''*'', ''*'']) [] None))
   \<and> length ([]::string list) <
       length (context_when_abandoned 1 [] (enumerate_level Scheme demo_env
             (demo_arn [''arn'', ''aws'', ''ec2'', ''us-east-1'', ''*'', ''*'']) [] None))"
proof -
  let ?arn = "demo_arn [''arn'', ''aws'', ''ec2'', ''us-east-1'', ''*'', ''*'']"
  let ?t = "enumerate_level Scheme demo_env ?arn [] None"
  have e: "ending ?t = None" by code_simp
  have m: "matches demo_env ?arn (Region, ''mars'') (Some [''arn'', ''aws'', ''ec2'']) = Inr []"
    by code_simp
  have k: "Scheme \<noteq> Resource \<and> (0::nat) < 1 \<and> 1 \<le> length (yielded ?t)"
    by code_simp
  note main = context_restored_on_completion [of demo_env ?arn _ None]
  from main [of "[]", THEN conjunct1, rule_format, of Scheme] e
  have c1: "context_after ?t = []" by blast
  from main [of "[''arn'', ''aws'', ''ec2'']", THEN conjunct2, THEN conjunct1, rule_format,
      of "(Region, ''mars'')"] m
  have c2: "level_enumerate demo_env ?arn (Region, ''mars'')
       (\<lambda>c. Account_enumerate demo_env ?arn c None) [''arn'', ''aws'', ''ec2''] =
       \<lparr>yielded = [], ending = None, context_after = [''arn'', ''aws'', ''ec2'']\<rparr>"
    by blast
  from main [of "[]", THEN conjunct2, THEN conjunct2, rule_format, of Scheme 1] k
  have c3: "length ([]::string list) < length (context_when_abandoned 1 [] ?t)" by blast
  from e m k c1 c2 c3 show ?thesis by blast
qed

section \<open>The resource level\<close>

lemma Resource_loop_raises:
  "t \<in> set types \<Longrightarrow>
   find_resource_class env (py_join (CHR ''.'') [prov, svc, t]) = Inl e \<Longrightarrow>
   isl (Resource_loop env arn prov svc reg acct rid creds types acc)"
proof (induction types arbitrary: acc)
  case Nil
  then show ?case by simp
next
  case (Cons a types)
  show ?case
  proof (cases "a = t")
    case True
    with Cons.prems show ?thesis by (simp add: Let_def)
  next
    case False
    with Cons.prems have "t \<in> set types" by simp
    with Cons show ?thesis
      by (auto simp: Let_def split: sum.splits)
  qed
qed

lemma Resource_loop_first_failure:
  "\<forall>u \<in> set pre. \<exists>cls rs.
      find_resource_class env (py_join (CHR ''.'') [prov, svc, u]) = Inr cls \<and>
      cls arn reg acct rid creds = Inr rs \<Longrightarrow>
   find_resource_class env (py_join (CHR ''.'') [prov, svc, t]) = Inl e \<Longrightarrow>
   Resource_loop env arn prov svc reg acct rid creds (pre @ t # post) acc = Inl e"
proof (induction pre arbitrary: acc)
  case Nil
  then show ?case by (simp add: Let_def)
next
  case (Cons a pre)
  from Cons.prems(1) obtain cls rs where
    a: "find_resource_class env (py_join (CHR ''.'') [prov, svc, a]) = Inr cls"
       "cls arn reg acct rid creds = Inr rs"
    by auto
  from Cons.prems(1) have rest: "\<forall>u \<in> set pre. \<exists>cls rs.
      find_resource_class env (py_join (CHR ''.'') [prov, svc, u]) = Inr cls \<and>
      cls arn reg acct rid creds = Inr rs"
    by simp
  have "Resource_loop env arn prov svc reg acct rid creds ((a # pre) @ t # post) acc =
        Resource_loop env arn prov svc reg acct rid creds (pre @ t # post) (acc @ rs)"
    using a by (simp add: Let_def)
  with Cons.IH [OF rest Cons.prems(2)] show ?case by simp
qed

text \<open>
  C3, as stated, fails.  The registry lists the types \<open>instance\<close> and \<open>volume\<close> and has
  a class for \<open>instance\<close> only: \<open>Resource.enumerate\<close> raises what the lookup of \<open>volume\<close>
  raised, and the two records of the registered sibling, which the call returns when
  \<open>volume\<close> is not listed, are lost with it.
\<close>

theorem sibling_records_lost_counterexample:
  "matches gap_env (demo_arn [''arn'', ''aws'', ''ec2'', ''us-east-1'', ''123'', ''*''])
     (resource (demo_arn [''arn'', ''aws'', ''ec2'', ''us-east-1'', ''123'', ''*'']))
     (Some [''arn'', ''aws'', ''ec2'', ''us-east-1'', ''123'']) = Inr [''instance'', ''volume'']
   \<and> \<not> isl (find_resource_class gap_env ''aws.ec2.instance'')
   \<and> isl (find_resource_class gap_env ''aws.ec2.volume'')
   \<and> Resource_enumerate gap_env
        (demo_arn [''arn'', ''aws'', ''ec2'', ''us-east-1'', ''123'', ''*''])
        [''arn'', ''aws'', ''ec2'', ''us-east-1'', ''123''] None = Inl (External ''KeyError'')
   \<and> Resource_enumerate demo_env
        (demo_arn [''arn'', ''aws'', ''ec2'', ''us-east-1'', ''123'', ''*''])
        [''arn'', ''aws'', ''ec2'', ''us-east-1'', ''123''] None
       = Inr [''123/us-east-1/i-1'', ''123/us-east-1/i-2'']"
  by code_simp

text \<open>
  C3, amended.  When the lookup of the class of a matched resource type raises, the
  exception is not caught.  If the types matched before it were looked up and
  enumerated without an exception, \<open>Resource.enumerate\<close> raises that very exception; in
  any case it raises and returns no list, whatever the other matched types are.
\<close>

theorem unregistered_type_raises:
  "(matches env arn (resource arn) (Some [sc, prov, svc, reg, acct]) = Inr (pre @ t # post)
    \<and> (\<forall>u \<in> set pre. \<exists>cls rs.
          find_resource_class env (py_join (CHR ''.'') [prov, svc, u]) = Inr cls \<and>
          cls arn reg acct (snd (split_resource (pattern (resource arn)))) creds = Inr rs)
    \<and> find_resource_class env (py_join (CHR ''.'') [prov, svc, t]) = Inl e
    \<longrightarrow> Resource_enumerate env arn [sc, prov, svc, reg, acct] creds = Inl e)
   \<and> (matches env arn (resource arn) (Some [sc, prov, svc, reg, acct]) = Inr types
      \<and> t \<in> set types
      \<and> find_resource_class env (py_join (CHR ''.'') [prov, svc, t]) = Inl e
      \<longrightarrow> isl (Resource_enumerate env arn [sc, prov, svc, reg, acct] creds))"
proof (intro conjI impI)
  let ?rid = "snd (split_resource (pattern (resource arn)))"
  assume a: "matches env arn (resource arn) (Some [sc, prov, svc, reg, acct])
               = Inr (pre @ t # post)
    \<and> (\<forall>u \<in> set pre. \<exists>cls rs.
          find_resource_class env (py_join (CHR ''.'') [prov, svc, u]) = Inr cls \<and>
          cls arn reg acct ?rid creds = Inr rs)
    \<and> find_resource_class env (py_join (CHR ''.'') [prov, svc, t]) = Inl e"
  from a have m: "matches env arn (resource arn) (Some [sc, prov, svc, reg, acct])
               = Inr (pre @ t # post)" by blast
  from a have p: "\<forall>u \<in> set pre. \<exists>cls rs.
          find_resource_class env (py_join (CHR ''.'') [prov, svc, u]) = Inr cls \<and>
          cls arn reg acct ?rid creds = Inr rs" by blast
  from a have f: "find_resource_class env (py_join (CHR ''.'') [prov, svc, t]) = Inl e"
    by blast
  have "Resource_loop env arn prov svc reg acct ?rid creds (pre @ t # post) [] = Inl e"
    by (rule Resource_loop_first_failure [OF p f])
  with m show "Resource_enumerate env arn [sc, prov, svc, reg, acct] creds = Inl e"
    by (simp add: Resource_enumerate_def Let_def)
next
  let ?rid = "snd (split_resource (pattern (resource arn)))"
  assume a: "matches env arn (resource arn) (Some [sc, prov, svc, reg, acct]) = Inr types
      \<and> t \<in> set types
      \<and> find_resource_class env (py_join (CHR ''.'') [prov, svc, t]) = Inl e"
  from a have m: "matches env arn (resource arn) (Some [sc, prov, svc, reg, acct]) = Inr types"
    by blast
  from a have t: "t \<in> set types" by blast
  from a have f: "find_resource_class env (py_join (CHR ''.'') [prov, svc, t]) = Inl e"
    by blast
  have "isl (Resource_loop env arn prov svc reg acct ?rid creds types [])"
    by (rule Resource_loop_raises [OF t f])
  with m show "isl (Resource_enumerate env arn [sc, prov, svc, reg, acct] creds)"
    by (simp add: Resource_enumerate_def Let_def)
qed

theorem unregistered_type_raises_witness:
  "matches gap_env (demo_arn [''arn'', ''aws'', ''ec2'', ''us-east-1'', ''123'', ''*''])
     (resource (demo_arn [''arn'', ''aws'', ''ec2'', ''us-east-1'', ''123'', ''*'']))
     (Some [''arn'', ''aws'', ''ec2'', ''us-east-1'', ''123''])
     = Inr ([''instance''] @ ''volume'' # [])
   \<and> find_resource_class gap_env (py_join (CHR ''.'') [''aws'', ''ec2'', ''instance''])
       = Inr (demo_class [''i-1'', ''i-2''])
   \<and> demo_class [''i-1'', ''i-2'']
        (demo_arn [''arn'', ''aws'', ''ec2'', ''us-east-1'', ''123'', ''*''])
        ''us-east-1'' ''123'' None None
       = Inr [''123/us-east-1/i-1'', ''123/us-east-1/i-2'']
   \<and> find_resource_class gap_env (py_join (CHR ''.'') [''aws'', ''ec2'', ''volume''])
       = Inl (External ''KeyError'')
   \<and> Resource_enumerate gap_env
        (demo_arn [''arn'', ''aws'', ''ec2'', ''us-east-1'', ''123'', ''*''])
        [''arn'', ''aws'', ''ec2'', ''us-east-1'', ''123''] None
       = Inl (External ''KeyError'')
   \<and> ''volume'' \<in> set [''instance'', ''volume'']
   \<and> isl (Resource_enumerate gap_env
        (demo_arn [''arn'', ''aws'', ''ec2'', ''us-east-1'', ''123'', ''*''])
        [''arn'', ''aws'', ''ec2'', ''us-east-1'', ''123''] None)"
proof -
  let ?arn = "demo_arn [''arn'', ''aws'', ''ec2'', ''us-east-1'', ''123'', ''*'']"
  have m: "matches gap_env ?arn (resource ?arn)
     (Some [''arn'', ''aws'', ''ec2'', ''us-east-1'', ''123''])
     = Inr ([''instance''] @ ''volume'' # [])"
    by code_simp
  have i: "find_resource_class gap_env (py_join (CHR ''.'') [''aws'', ''ec2'', ''instance''])
       = Inr (demo_class [''i-1'', ''i-2''])"
    by (simp add: gap_env_def demo_env_def)
  have r: "snd (split_resource (pattern (resource ?arn))) = None"
    by code_simp
  have b: "demo_class [''i-1'', ''i-2''] ?arn ''us-east-1'' ''123'' None None
       = Inr [''123/us-east-1/i-1'', ''123/us-east-1/i-2'']"
    by (simp add: demo_class_def)
  have f: "find_resource_class gap_env (py_join (CHR ''.'') [''aws'', ''ec2'', ''volume''])
       = Inl (External ''KeyError'')"
    by (simp add: gap_env_def demo_env_def)
  have pre: "\<forall>u \<in> set [''instance'']. \<exists>cls rs.
          find_resource_class gap_env (py_join (CHR ''.'') [''aws'', ''ec2'', u]) = Inr cls \<and>
          cls ?arn ''us-east-1'' ''123'' (snd (split_resource (pattern (resource ?arn)))) None
            = Inr rs"
    using i b r by auto
  have t: "''volume'' \<in> set [''instance'', ''volume'']" by simp
  have e: "Resource_enumerate gap_env ?arn [''arn'', ''aws'', ''ec2'', ''us-east-1'', ''123''] None
       = Inl (External ''KeyError'')"
    using unregistered_type_raises [THEN conjunct1, of gap_env ?arn "''arn''" "''aws''" "''ec2''"
        "''us-east-1''" "''123''" "[''instance'']" "''volume''" "[]" None "External ''KeyError''"]
      m pre f
    by blast
  from m i b f e t show ?thesis by simp
qed

section \<open>Order of the results\<close>

lemma level_loop_first:
  assumes nx: "stack_discipline nx"
  shows "records (level_loop nx (m # ms) ctx) =
     records (nx (ctx @ [m])) @
       (if ending (nx (ctx @ [m])) = None then records (level_loop nx ms ctx) else [])"
proof (cases "ending (nx (ctx @ [m]))")
  case (Some e)
  then show ?thesis by (simp add: records_def)
next
  case None
  with nx have "context_after (nx (ctx @ [m])) = ctx @ [m]" by blast
  with None show ?thesis by (simp add: records_def Let_def)
qed

lemma level_loop_nil_records: "records (level_loop nx [] ctx) = []"
  by (simp add: records_def)

lemma level_loop_one:
  assumes nx: "stack_discipline nx"
  shows "records (level_loop nx [m] ctx) = records (nx (ctx @ [m]))"
  by (simp add: level_loop_first [OF nx] level_loop_nil_records del: level_loop.simps)

lemma level_loop_one_ending:
  assumes nx: "stack_discipline nx"
  shows "ending (level_loop nx [m] ctx) = ending (nx (ctx @ [m]))"
proof (cases "ending (nx (ctx @ [m]))")
  case (Some e)
  then show ?thesis by simp
next
  case None
  with nx have "context_after (nx (ctx @ [m])) = ctx @ [m]" by blast
  with None show ?thesis by (simp add: Let_def)
qed

lemma level_loop_records:
  assumes nx: "stack_discipline nx"
  shows "records (level_loop nx ms ctx) = first_runs (\<lambda>m. nx (ctx @ [m])) ms"
proof (induction ms)
  case Nil
  show ?case by (simp add: records_def)
next
  case (Cons m ms)
  have "records (level_loop nx (m # ms) ctx) =
     records (nx (ctx @ [m])) @
       (if ending (nx (ctx @ [m])) = None then records (level_loop nx ms ctx) else [])"
    by (rule level_loop_first [OF nx])
  with Cons.IH show ?case by simp
qed

lemma level_enumerate_records:
  assumes nx: "stack_discipline nx"
    and ms: "matches env arn self (Some ctx) = Inr ms"
  shows "records (level_enumerate env arn self nx ctx) = first_runs (\<lambda>m. nx (ctx @ [m])) ms"
  using ms by (simp add: level_enumerate_def level_loop_records [OF nx])

lemma Resource_loop_all_found:
  "\<forall>t \<in> set types.
      find_resource_class env (py_join (CHR ''.'') [prov, svc, t]) = Inr (cls_of t) \<and>
      cls_of t arn reg acct rid creds = Inr (recs t) \<Longrightarrow>
   Resource_loop env arn prov svc reg acct rid creds types acc =
     Inr (acc @ concat (map recs types))"
proof (induction types arbitrary: acc)
  case Nil
  show ?case by simp
next
  case (Cons a types)
  from Cons.prems have a:
    "find_resource_class env (py_join (CHR ''.'') [prov, svc, a]) = Inr (cls_of a)"
    "cls_of a arn reg acct rid creds = Inr (recs a)"
    by simp_all
  from Cons.prems have rest: "\<forall>t \<in> set types.
      find_resource_class env (py_join (CHR ''.'') [prov, svc, t]) = Inr (cls_of t) \<and>
      cls_of t arn reg acct rid creds = Inr (recs t)"
    by simp
  have "Resource_loop env arn prov svc reg acct rid creds (a # types) acc =
        Resource_loop env arn prov svc reg acct rid creds types (acc @ recs a)"
    using a by (simp add: Let_def)
  with Cons.IH [OF rest, of "acc @ recs a"] show ?case by simp
qed

lemma two_services_one_region:
  assumes sch: "matches env arn (scheme arn) (Some []) = Inr [sc]"
    and prv: "matches env arn (provider arn) (Some [sc]) = Inr [pr]"
    and svc: "matches env arn (service arn) (Some [sc, pr]) = Inr [s1, s2]"
    and rg1: "matches env arn (region arn) (Some [sc, pr, s1]) = Inr [r1]"
    and rg2: "matches env arn (region arn) (Some [sc, pr, s2]) = Inr [r1]"
  shows "records (ARN_iter env arn) =
     records (Account_enumerate env arn [sc, pr, s1, r1] (aws_creds arn)) @
     (if ending (Account_enumerate env arn [sc, pr, s1, r1] (aws_creds arn)) = None
      then records (Account_enumerate env arn [sc, pr, s2, r1] (aws_creds arn))
      else [])"
proof -
  let ?cr = "aws_creds arn"
  have reg: "\<And>s. matches env arn (region arn) (Some [sc, pr, s]) = Inr [r1] \<Longrightarrow>
      records (Region_enumerate env arn [sc, pr, s] ?cr) =
        records (Account_enumerate env arn [sc, pr, s, r1] ?cr)
      \<and> ending (Region_enumerate env arn [sc, pr, s] ?cr) =
        ending (Account_enumerate env arn [sc, pr, s, r1] ?cr)"
    by (simp add: Region_enumerate_def level_enumerate_def
        level_loop_one [OF Account_discipline] level_loop_one_ending [OF Account_discipline]
        del: level_loop.simps)
  have "records (Service_enumerate env arn [sc, pr] ?cr) =
      records (Region_enumerate env arn [sc, pr, s1] ?cr) @
       (if ending (Region_enumerate env arn [sc, pr, s1] ?cr) = None
        then records (Region_enumerate env arn [sc, pr, s2] ?cr) else [])"
    using svc
    by (simp add: Service_enumerate_def level_enumerate_def
        level_loop_first [OF Region_discipline] level_loop_nil_records
        del: level_loop.simps)
  with reg [OF rg1] reg [OF rg2]
  have s: "records (Service_enumerate env arn [sc, pr] ?cr) =
      records (Account_enumerate env arn [sc, pr, s1, r1] ?cr) @
       (if ending (Account_enumerate env arn [sc, pr, s1, r1] ?cr) = None
        then records (Account_enumerate env arn [sc, pr, s2, r1] ?cr) else [])"
    by simp
  have p: "records (Provider_enumerate env arn [sc] ?cr) =
      records (Service_enumerate env arn [sc, pr] ?cr)"
    using prv
    by (simp add: Provider_enumerate_def level_enumerate_def
        level_loop_one [OF Service_discipline] del: level_loop.simps)
  have "records (ARN_iter env arn) = records (Provider_enumerate env arn [sc] ?cr)"
    using sch
    by (simp add: ARN_iter_def Scheme_enumerate_def level_enumerate_def
        level_loop_one [OF Provider_discipline] del: level_loop.simps)
  with p s show ?thesis by simp
qed

text \<open>
  C9.  At each of the five generator levels the records come in the order of the
  matches: those of the next level under the first match, then under the second, and
  so on, up to the first run that ends in an exception.  \<open>Account.enumerate\<close> hands on
  the list of \<open>Resource.enumerate\<close> in its order, and that list holds the records of the
  matched resource types in the order of the types.  In particular, when scheme and
  provider have one match each, the service level matches \<open>[s1, s2]\<close> and the region
  level matches \<open>[r1]\<close> under both, the records of the top-level enumeration are the
  records produced under \<open>s1\<close> followed by the records produced under \<open>s2\<close> (none of
  them when the traversal under \<open>s1\<close> ended in an exception).
\<close>

theorem depth_first_order:
  "(matches env arn (scheme arn) (Some []) = Inr [sc]
    \<and> matches env arn (provider arn) (Some [sc]) = Inr [pr]
    \<and> matches env arn (service arn) (Some [sc, pr]) = Inr [s1, s2]
    \<and> matches env arn (region arn) (Some [sc, pr, s1]) = Inr [r1]
    \<and> matches env arn (region arn) (Some [sc, pr, s2]) = Inr [r1]
    \<longrightarrow> records (ARN_iter env arn) =
         records (Account_enumerate env arn [sc, pr, s1, r1] (aws_creds arn)) @
         (if ending (Account_enumerate env arn [sc, pr, s1, r1] (aws_creds arn)) = None
          then records (Account_enumerate env arn [sc, pr, s2, r1] (aws_creds arn))
          else []))
   \<and> (matches env arn (resource arn) (Some [sc, prov, svc, reg, acct]) = Inr types
      \<and> (\<forall>t \<in> set types.
            find_resource_class env (py_join (CHR ''.'') [prov, svc, t]) = Inr (cls_of t) \<and>
            cls_of t arn reg acct (snd (split_resource (pattern (resource arn)))) creds
              = Inr (recs t))
      \<longrightarrow> Resource_enumerate env arn [sc, prov, svc, reg, acct] creds =
           Inr (concat (map recs types)))
   \<and> (matches env arn (account arn) (Some ctx) = Inr ms
      \<longrightarrow> records (Account_enumerate env arn ctx creds) =
           first_runs (\<lambda>m. iterate_list (ctx @ [m])
                             (Resource_enumerate env arn (ctx @ [m]) creds)) ms)
   \<and> records (iterate_list ctx (Inr rs)) = rs
   \<and> ending (iterate_list ctx (Inr rs)) = None
   \<and> records (iterate_list ctx (Inl e)) = []
   \<and> ending (iterate_list ctx (Inl e)) = Some e
   \<and> (matches env arn (region arn) (Some ctx) = Inr ms
      \<longrightarrow> records (Region_enumerate env arn ctx creds) =
           first_runs (\<lambda>m. Account_enumerate env arn (ctx @ [m]) creds) ms)
   \<and> (matches env arn (service arn) (Some ctx) = Inr ms
      \<longrightarrow> records (Service_enumerate env arn ctx creds) =
           first_runs (\<lambda>m. Region_enumerate env arn (ctx @ [m]) creds) ms)
   \<and> (matches env arn (provider arn) (Some ctx) = Inr ms
      \<longrightarrow> records (Provider_enumerate env arn ctx creds) =
           first_runs (\<lambda>m. Service_enumerate env arn (ctx @ [m]) creds) ms)
   \<and> (matches env arn (scheme arn) (Some ctx) = Inr ms
      \<longrightarrow> records (Scheme_enumerate env arn ctx creds) =
           first_runs (\<lambda>m. Provider_enumerate env arn (ctx @ [m]) creds) ms)
   \<and> ARN_iter env arn = Scheme_enumerate env arn [] (aws_creds arn)"
proof (intro conjI impI)
  assume "matches env arn (scheme arn) (Some []) = Inr [sc]
    \<and> matches env arn (provider arn) (Some [sc]) = Inr [pr]
    \<and> matches env arn (service arn) (Some [sc, pr]) = Inr [s1, s2]
    \<and> matches env arn (region arn) (Some [sc, pr, s1]) = Inr [r1]
    \<and> matches env arn (region arn) (Some [sc, pr, s2]) = Inr [r1]"
  then show "records (ARN_iter env arn) =
         records (Account_enumerate env arn [sc, pr, s1, r1] (aws_creds arn)) @
         (if ending (Account_enumerate env arn [sc, pr, s1, r1] (aws_creds arn)) = None
          then records (Account_enumerate env arn [sc, pr, s2, r1] (aws_creds arn))
          else [])"
    by (intro two_services_one_region) blast+
next
  let ?rid = "snd (split_resource (pattern (resource arn)))"
  assume a: "matches env arn (resource arn) (Some [sc, prov, svc, reg, acct]) = Inr types
      \<and> (\<forall>t \<in> set types.
            find_resource_class env (py_join (CHR ''.'') [prov, svc, t]) = Inr (cls_of t) \<and>
            cls_of t arn reg acct ?rid creds = Inr (recs t))"
  from a have m: "matches env arn (resource arn) (Some [sc, prov, svc, reg, acct]) = Inr types"
    by blast
  from a have p: "\<forall>t \<in> set types.
            find_resource_class env (py_join (CHR ''.'') [prov, svc, t]) = Inr (cls_of t) \<and>
            cls_of t arn reg acct ?rid creds = Inr (recs t)"
    by blast
  have "Resource_loop env arn prov svc reg acct ?rid creds types [] =
          Inr ([] @ concat (map recs types))"
    by (rule Resource_loop_all_found [OF p])
  with m show "Resource_enumerate env arn [sc, prov, svc, reg, acct] creds =
           Inr (concat (map recs types))"
    by (simp add: Resource_enumerate_def Let_def)
next
  assume "matches env arn (account arn) (Some ctx) = Inr ms"
  then show "records (Account_enumerate env arn ctx creds) =
           first_runs (\<lambda>m. iterate_list (ctx @ [m])
                             (Resource_enumerate env arn (ctx @ [m]) creds)) ms"
    unfolding Account_enumerate_def
    by (rule level_enumerate_records [OF iterate_list_discipline])
next
  show "records (iterate_list ctx (Inr rs)) = rs"
    by (simp add: iterate_list_def records_def comp_def)
next
  show "ending (iterate_list ctx (Inr rs)) = None"
    by (simp add: iterate_list_def)
next
  show "records (iterate_list ctx (Inl e)) = []"
    by (simp add: iterate_list_def records_def)
next
  show "ending (iterate_list ctx (Inl e)) = Some e"
    by (simp add: iterate_list_def)
next
  assume "matches env arn (region arn) (Some ctx) = Inr ms"
  then show "records (Region_enumerate env arn ctx creds) =
           first_runs (\<lambda>m. Account_enumerate env arn (ctx @ [m]) creds) ms"
    unfolding Region_enumerate_def
    by (rule level_enumerate_records [OF Account_discipline])
next
  assume "matches env arn (service arn) (Some ctx) = Inr ms"
  then show "records (Service_enumerate env arn ctx creds) =
           first_runs (\<lambda>m. Region_enumerate env arn (ctx @ [m]) creds) ms"
    unfolding Service_enumerate_def
    by (rule level_enumerate_records [OF Region_discipline])
next
  assume "matches env arn (provider arn) (Some ctx) = Inr ms"
  then show "records (Provider_enumerate env arn ctx creds) =
           first_runs (\<lambda>m. Service_enumerate env arn (ctx @ [m]) creds) ms"
    unfolding Provider_enumerate_def
    by (rule level_enumerate_records [OF Service_discipline])
next
  assume "matches env arn (scheme arn) (Some ctx) = Inr ms"
  then show "records (Scheme_enumerate env arn ctx creds) =
           first_runs (\<lambda>m. Provider_enumerate env arn (ctx @ [m]) creds) ms"
    unfolding Scheme_enumerate_def
    by (rule level_enumerate_records [OF Provider_discipline])
next
  show "ARN_iter env arn = Scheme_enumerate env arn [] (aws_creds arn)"
    by (simp add: ARN_iter_def)
qed

theorem depth_first_order_witness:
  "matches wide_env (demo_arn [''arn'', ''aws'', ''*'', ''us-east-1'', ''*'', ''*''])
     (scheme (demo_arn [''arn'', ''aws'', ''*'', ''us-east-1'', ''*'', ''*''])) (Some [])
     = Inr [''arn'']
   \<and> matches wide_env (demo_arn [''arn'', ''aws'', ''*'', ''us-east-1'', ''*'', ''*''])
     (provider (demo_arn [''arn'', ''aws'', ''*'', ''us-east-1'', ''*'', ''*'']))
     (Some [''arn'']) = Inr [''aws'']
   \<and> matches wide_env (demo_arn [''arn'', ''aws'', ''*'', ''us-east-1'', ''*'', ''*''])
     (service (demo_arn [''arn'', ''aws'', ''*'', ''us-east-1'', ''*'', ''*'']))
     (Some [''arn'', ''aws'']) = Inr [''ec2'', ''s3'']
   \<and> matches wide_env (demo_arn [''arn'', ''aws'', ''*'', ''us-east-1'', ''*'', ''*''])
     (region (demo_arn [''arn'', ''aws'', ''*'', ''us-east-1'', ''*'', ''*'']))
     (Some [''arn'', ''aws'', ''ec2'']) = Inr [''us-east-1'']
   \<and> matches wide_env (demo_arn [''arn'', ''aws'', ''*'', ''us-east-1'', ''*'', ''*''])
     (region (demo_arn [''arn'', ''aws'', ''*'', ''us-east-1'', ''*'', ''*'']))
     (Some [''arn'', ''aws'', ''s3'']) = Inr [''us-east-1'']
   \<and> records (ARN_iter wide_env (demo_arn [''arn'', ''aws'', ''*'', ''us-east-1'', ''*'', ''*'']))
     = [''123/us-east-1/i-1'', ''123/us-east-1/i-2'', ''123/us-east-1/ami-1'',
        ''456/us-east-1/i-1'', ''456/us-east-1/i-2'', ''456/us-east-1/ami-1'']
       @ [''123/us-east-1/b-1'', ''456/us-east-1/b-1'']
   \<and> matches wide_env (demo_arn [''arn'', ''aws'', ''*'', ''us-east-1'', ''*'', ''*''])
     (resource (demo_arn [''arn'', ''aws'', ''*'', ''us-east-1'', ''*'', ''*'']))
     (Some [''arn'', ''aws'', ''ec2'', ''us-east-1'', ''456'']) = Inr [''instance'', ''image'']
   \<and> Resource_enumerate wide_env
       (demo_arn [''arn'', ''aws'', ''*'', ''us-east-1'', ''*'', ''*''])
       [''arn'', ''aws'', ''ec2'', ''us-east-1'', ''456''] None
     = Inr (concat [[''456/us-east-1/i-1'', ''456/us-east-1/i-2''], [''456/us-east-1/ami-1'']])
   \<and> matches wide_env (demo_arn [''arn'', ''aws'', ''*'', ''us-east-1'', ''*'', ''*''])
     (account (demo_arn [''arn'', ''aws'', ''*'', ''us-east-1'', ''*'', ''*'']))
     (Some [''arn'', ''aws'', ''s3'', ''us-east-1'']) = Inr [''123'', ''456'']
   \<and> records (Account_enumerate wide_env
       (demo_arn [''arn'', ''aws'', ''*'', ''us-east-1'', ''*'', ''*''])
       [''arn'', ''aws'', ''s3'', ''us-east-1''] None)
     = [''123/us-east-1/b-1'', ''456/us-east-1/b-1'']"
proof -
  let ?arn = "demo_arn [''arn'', ''aws'', ''*'', ''us-east-1'', ''*'', ''*'']"
  let ?cls = "\<lambda>t. if t = ''instance'' then demo_class [''i-1'', ''i-2'']
                   else (demo_class [''ami-1''] :: (string, unit, string) resource_class)"
  let ?recs = "\<lambda>t. if t = ''instance'' then [''456/us-east-1/i-1'', ''456/us-east-1/i-2'']
                    else [''456/us-east-1/ami-1'']"
  have sch: "matches wide_env ?arn (scheme ?arn) (Some []) = Inr [''arn'']"
    by code_simp
  have prv: "matches wide_env ?arn (provider ?arn) (Some [''arn'']) = Inr [''aws'']"
    by code_simp
  have svc: "matches wide_env ?arn (service ?arn) (Some [''arn'', ''aws'']) = Inr [''ec2'', ''s3'']"
    by code_simp
  have rg1: "matches wide_env ?arn (region ?arn) (Some [''arn'', ''aws'', ''ec2''])
               = Inr [''us-east-1'']"
    by code_simp
  have rg2: "matches wide_env ?arn (region ?arn) (Some [''arn'', ''aws'', ''s3''])
               = Inr [''us-east-1'']"
    by code_simp
  have a1: "records (Account_enumerate wide_env ?arn
                [''arn'', ''aws'', ''ec2'', ''us-east-1''] (aws_creds ?arn))
            = [''123/us-east-1/i-1'', ''123/us-east-1/i-2'', ''123/us-east-1/ami-1'',
               ''456/us-east-1/i-1'', ''456/us-east-1/i-2'', ''456/us-east-1/ami-1'']"
    by code_simp
  have e1: "ending (Account_enumerate wide_env ?arn
                [''arn'', ''aws'', ''ec2'', ''us-east-1''] (aws_creds ?arn)) = None"
    by code_simp
  have a2: "records (Account_enumerate wide_env ?arn
                [''arn'', ''aws'', ''s3'', ''us-east-1''] (aws_creds ?arn))
            = [''123/us-east-1/b-1'', ''456/us-east-1/b-1'']"
    by code_simp
  have top: "records (ARN_iter wide_env ?arn) =
         records (Account_enumerate wide_env ?arn
                    [''arn'', ''aws'', ''ec2'', ''us-east-1''] (aws_creds ?arn)) @
         (if ending (Account_enumerate wide_env ?arn
                    [''arn'', ''aws'', ''ec2'', ''us-east-1''] (aws_creds ?arn)) = None
          then records (Account_enumerate wide_env ?arn
                    [''arn'', ''aws'', ''s3'', ''us-east-1''] (aws_creds ?arn))
          else [])"
    using depth_first_order [where env = wide_env and arn = ?arn
        and sc = "''arn''" and pr = "''aws''" and ?s1.0 = "''ec2''" and ?s2.0 = "''s3''"
        and ?r1.0 = "''us-east-1''", THEN conjunct1] sch prv svc rg1 rg2
    by blast
  have rm: "matches wide_env ?arn (resource ?arn)
      (Some [''arn'', ''aws'', ''ec2'', ''us-east-1'', ''456'']) = Inr [''instance'', ''image'']"
    by code_simp
  have rid: "snd (split_resource (pattern (resource ?arn))) = None"
    by code_simp
  have found: "\<forall>t \<in> set [''instance'', ''image''].
      find_resource_class wide_env (py_join (CHR ''.'') [''aws'', ''ec2'', t]) = Inr (?cls t) \<and>
      ?cls t ?arn ''us-east-1'' ''456'' (snd (split_resource (pattern (resource ?arn)))) None
        = Inr (?recs t)"
    by (simp add: rid wide_env_def demo_env_def demo_class_def)
  have res: "Resource_enumerate wide_env ?arn
       [''arn'', ''aws'', ''ec2'', ''us-east-1'', ''456''] None
     = Inr (concat (map ?recs [''instance'', ''image'']))"
    using depth_first_order [where env = wide_env
        and arn = ?arn and sc = "''arn''" and prov = "''aws''" and svc = "''ec2''"
        and reg = "''us-east-1''" and acct = "''456''" and types = "[''instance'', ''image'']"
        and cls_of = ?cls and creds = None and recs = ?recs, THEN conjunct2, THEN conjunct1]
      rm found
    by blast
  have am: "matches wide_env ?arn (account ?arn)
      (Some [''arn'', ''aws'', ''s3'', ''us-east-1'']) = Inr [''123'', ''456'']"
    by code_simp
  have fr: "first_runs (\<lambda>m. iterate_list ([''arn'', ''aws'', ''s3'', ''us-east-1''] @ [m])
                (Resource_enumerate wide_env ?arn
                   ([''arn'', ''aws'', ''s3'', ''us-east-1''] @ [m]) None)) [''123'', ''456'']
     = [''123/us-east-1/b-1'', ''456/us-east-1/b-1'']"
    by code_simp
  have "records (Account_enumerate wide_env ?arn [''arn'', ''aws'', ''s3'', ''us-east-1''] None)
     = first_runs (\<lambda>m. iterate_list ([''arn'', ''aws'', ''s3'', ''us-east-1''] @ [m])
                (Resource_enumerate wide_env ?arn
                   ([''arn'', ''aws'', ''s3'', ''us-east-1''] @ [m]) None)) [''123'', ''456'']"
    using depth_first_order [where env = wide_env and arn = ?arn
        and ctx = "[''arn'', ''aws'', ''s3'', ''us-east-1'']"
        and ms = "[''123'', ''456'']" and creds = None,
        THEN conjunct2, THEN conjunct2, THEN conjunct1] am
    by blast
  with fr have acc: "records (Account_enumerate wide_env ?arn
       [''arn'', ''aws'', ''s3'', ''us-east-1''] None)
     = [''123/us-east-1/b-1'', ''456/us-east-1/b-1'']"
    by simp
  from sch prv svc rg1 rg2 top a1 e1 a2 rm res am acc show ?thesis
    by simp
qed

end
